theory Spec2Isabelle
  imports Main
begin

section \<open>The QuirkNotes backend (backend-example/server.js)\<close>

text \<open>
  The server is a set of Express route handlers over two MongoDB collections,
  \<open>users\<close> and \<open>notes\<close>. Each handler is embedded as a function from the request's
  inputs and the database to the response and the new database. What the handlers take
  from outside the process is an explicit argument: the clock (\<open>now\<close>, in seconds, read by
  jsonwebtoken), the salt bcrypt draws, and the \<open>_id\<close> the driver generates for an
  inserted note.

  The three libraries the handlers call (bson's ObjectId, jsonwebtoken, bcrypt) are not
  part of the repository. They are the fields of a record \<open>libs\<close> that every handler
  takes, and a theorem that needs a property of a library states it as a premise.
\<close>

subsection \<open>Data\<close>

text \<open>
  A field of a JSON request body is absent (\<open>undefined\<close>) or a string. JavaScript's
  \<open>!x\<close> holds for \<open>undefined\<close> and for the empty string. Bodies whose fields have
  another JSON type (numbers, objects) are outside the model.
\<close>

definition truthy :: "string option \<Rightarrow> bool" where
  "truthy x = (case x of None \<Rightarrow> False | Some s \<Rightarrow> s \<noteq> [])"

definition val :: "string option \<Rightarrow> string" where
  "val x = (case x of None \<Rightarrow> [] | Some s \<Rightarrow> s)"

text \<open>\<open>a || b\<close> on a body field and a stored string.\<close>

definition or_else :: "string option \<Rightarrow> string \<Rightarrow> string" where
  "or_else a b = (if truthy a then val a else b)"

text \<open>
  A document of the \<open>users\<close> collection: \<open>{username, password}\<close>, the password
  hashed. Its \<open>_id\<close> is never read and is left out.
\<close>

record user =
  user_username :: string
  user_password :: string

text \<open>A document of the \<open>notes\<close> collection: \<open>{_id, title, content, username}\<close>.\<close>

record 'oid note_doc =
  note_id :: 'oid
  note_title :: string
  note_content :: string
  note_username :: string

text \<open>
  The database handle \<open>db\<close>: both collections, in insertion order. Every call on a
  collection is taken to complete: a store that fails (the 500 of the \<open>catch\<close> blocks) is
  not modelled.
\<close>

record 'oid db =
  db_users :: "user list"
  db_notes :: "'oid note_doc list"

text \<open>
  The libraries. \<open>ObjectId_parse s\<close> is \<open>new ObjectId(s)\<close>, \<open>None\<close> where the
  constructor throws, so that \<open>ObjectId.isValid(s)\<close> is \<open>ObjectId_parse s \<noteq> None\<close>.
  \<open>jwt_sign username key expiresIn now\<close> is \<open>jwt.sign({username}, key, {expiresIn})\<close>
  at time \<open>now\<close>; \<open>jwt_verify token key now\<close> is the \<open>username\<close> of the decoded
  payload, \<open>None\<close> where \<open>jwt.verify\<close> hands the callback an error.
  \<open>bcrypt_hash password salt\<close> is \<open>bcrypt.hash(password, 10)\<close> with the salt drawn.
\<close>

record 'oid libs =
  ObjectId_parse :: "string \<Rightarrow> 'oid option"
  jwt_sign :: "string \<Rightarrow> string \<Rightarrow> nat \<Rightarrow> nat \<Rightarrow> string"
  jwt_verify :: "string \<Rightarrow> string \<Rightarrow> nat \<Rightarrow> string option"
  bcrypt_hash :: "string \<Rightarrow> string \<Rightarrow> string"
  bcrypt_compare :: "string \<Rightarrow> string \<Rightarrow> bool"

text \<open>
  What a handler answers: a status and a body, or nothing at all when an exception
  escapes the \<open>async\<close> callback given to \<open>jwt.verify\<close>, which no \<open>try\<close> encloses.
\<close>

datatype js_exception = TypeError_split_of_undefined

datatype 'oid reply =
    JError string
  | JErrorMessage js_exception
  | JToken string string
  | JInserted string 'oid
  | JNote "'oid note_doc"
  | JNotes "'oid note_doc list"
  | JMessage string
  | Text string

datatype 'oid outcome = Response nat "'oid reply" | Unhandled

subsection \<open>Reading the bearer token\<close>

text \<open>\<open>s.split(c)\<close> for a one-character separator: never empty, \<open>"".split(" ")\<close> is \<open>[""]\<close>.\<close>

fun split :: "char \<Rightarrow> string \<Rightarrow> string list" where
  "split c [] = [[]]"
| "split c (x # xs) =
     (if x = c then [] # split c xs
      else (case split c xs of [] \<Rightarrow> [[x]] | w # ws \<Rightarrow> (x # w) # ws))"

text \<open>\<open>req.headers.authorization.split(" ")[1]\<close>, \<open>None\<close> for \<open>undefined\<close>.\<close>

definition token_of :: "string \<Rightarrow> string option" where
  "token_of authorization =
     (case split (CHR '' '') authorization of _ # t # _ \<Rightarrow> Some t | _ \<Rightarrow> None)"

text \<open>
  \<open>jwt.verify(token, "secret-key", callback)\<close>: an \<open>undefined\<close> or empty token is an
  error (jwt must be provided); the result is \<open>decoded.username\<close>.
\<close>

definition verify :: "'oid libs \<Rightarrow> string option \<Rightarrow> nat \<Rightarrow> string option" where
  "verify L token now =
     (case token of
        None \<Rightarrow> None
      | Some t \<Rightarrow> if t = [] then None else jwt_verify L t ''secret-key'' now)"

subsection \<open>Collection operations\<close>

text \<open>\<open>userCollection.findOne({ username })\<close>: the first matching document.\<close>

definition findOne_user :: "user list \<Rightarrow> string \<Rightarrow> user option" where
  "findOne_user us username = find (\<lambda>u. user_username u = username) us"

text \<open>The filter \<open>{ username: decoded.username, _id: new ObjectId(noteId) }\<close>.\<close>

definition owned :: "string \<Rightarrow> 'oid \<Rightarrow> 'oid note_doc \<Rightarrow> bool" where
  "owned username oid n = (note_username n = username \<and> note_id n = oid)"

fun delete_first :: "('a \<Rightarrow> bool) \<Rightarrow> 'a list \<Rightarrow> 'a list" where
  "delete_first P [] = []"
| "delete_first P (x # xs) = (if P x then xs else x # delete_first P xs)"

fun update_first :: "('a \<Rightarrow> bool) \<Rightarrow> ('a \<Rightarrow> 'a) \<Rightarrow> 'a list \<Rightarrow> 'a list" where
  "update_first P f [] = []"
| "update_first P f (x # xs) = (if P x then f x # xs else x # update_first P f xs)"

text \<open>
  \<open>findOneAndDelete(filter)\<close>: the deleted document or \<open>null\<close> (the result the
  handler's \<open>!data\<close> test reads), and the collection without the first match.
\<close>

definition findOneAndDelete ::
  "('a \<Rightarrow> bool) \<Rightarrow> 'a list \<Rightarrow> 'a option \<times> 'a list" where
  "findOneAndDelete P xs = (find P xs, delete_first P xs)"

subsection \<open>POST /registerUser and POST /loginUser\<close>

definition registerUser ::
  "'oid libs \<Rightarrow> nat \<Rightarrow> string \<Rightarrow> string option \<Rightarrow> string option \<Rightarrow> 'oid db
     \<Rightarrow> 'oid outcome \<times> 'oid db" where
  "registerUser L now salt username password d =
     (if truthy username \<and> truthy password then
        (case findOne_user (db_users d) (val username) of
           Some existingUser \<Rightarrow> (Response 400 (JError ''Username already exists.''), d)
         | None \<Rightarrow>
             (let hashedPassword = bcrypt_hash L (val password) salt;
                  d' = d\<lparr>db_users := db_users d @
                         [\<lparr>user_username = val username, user_password = hashedPassword\<rparr>]\<rparr>;
                  token = jwt_sign L (val username) ''secret-key'' 3600 now
              in (Response 201 (JToken ''User registered successfully.'' token), d')))
      else (Response 400 (JError ''Username and password both needed to register.''), d))"

definition loginUser ::
  "'oid libs \<Rightarrow> nat \<Rightarrow> string option \<Rightarrow> string option \<Rightarrow> 'oid db
     \<Rightarrow> 'oid outcome \<times> 'oid db" where
  "loginUser L now username password d =
     (if truthy username \<and> truthy password then
        (case findOne_user (db_users d) (val username) of
           None \<Rightarrow> (Response 401 (JError ''Authentication failed.''), d)
         | Some user \<Rightarrow>
             if bcrypt_compare L (val password) (user_password user) then
               (let token = jwt_sign L (val username) ''secret-key'' 3600 now
                in (Response 200 (JToken ''User logged in succesfully.'' token), d))
             else (Response 401 (JError ''Authentication failed.''), d))
      else (Response 400 (JError ''Username and password both needed to login.''), d))"

subsection \<open>The note routes\<close>

text \<open>
  The head every note route shares: read the header (a missing header makes \<open>.split\<close>
  throw a TypeError inside the \<open>try\<close>, answered with 500), verify the token (401 on an
  error), then run the callback's body with \<open>decoded.username\<close>.
\<close>

definition with_token ::
  "'oid libs \<Rightarrow> nat \<Rightarrow> string option \<Rightarrow> 'oid db
     \<Rightarrow> (string \<Rightarrow> 'oid outcome \<times> 'oid db) \<Rightarrow> 'oid outcome \<times> 'oid db" where
  "with_token L now authorization d body =
     (case authorization of
        None \<Rightarrow> (Response 500 (JErrorMessage TypeError_split_of_undefined), d)
      | Some h \<Rightarrow>
          (case verify L (token_of h) now of
             None \<Rightarrow> (Response 401 (Text ''Unauthorized.''), d)
           | Some username \<Rightarrow> body username))"

text \<open>
  POST /postNote. \<open>new_id\<close> is the \<open>_id\<close> the driver generates for the document. The
  collection's unique index on \<open>_id\<close> rejects a duplicate; that rejection is raised
  inside the callback and nothing answers the request.
\<close>

definition postNote ::
  "'oid libs \<Rightarrow> nat \<Rightarrow> 'oid \<Rightarrow> string option \<Rightarrow> string option \<Rightarrow> string option \<Rightarrow> 'oid db
     \<Rightarrow> 'oid outcome \<times> 'oid db" where
  "postNote L now new_id authorization title content d =
     (if truthy title \<and> truthy content then
        with_token L now authorization d (\<lambda>username.
          if new_id \<in> set (map note_id (db_notes d)) then (Unhandled, d)
          else
            (Response 200 (JInserted ''Note added succesfully.'' new_id),
             d\<lparr>db_notes := db_notes d @
               [\<lparr>note_id = new_id, note_title = val title, note_content = val content,
                 note_username = username\<rparr>]\<rparr>))
      else (Response 400 (JError ''Title and content are both required.''), d))"

text \<open>GET /getNote/:noteId\<close>

definition getNote ::
  "'oid libs \<Rightarrow> nat \<Rightarrow> string option \<Rightarrow> string \<Rightarrow> 'oid db \<Rightarrow> 'oid outcome \<times> 'oid db" where
  "getNote L now authorization noteId d =
     (case ObjectId_parse L noteId of
        None \<Rightarrow> (Response 400 (JError ''Invalid note ID.''), d)
      | Some oid \<Rightarrow>
          with_token L now authorization d (\<lambda>username.
            case find (owned username oid) (db_notes d) of
              None \<Rightarrow> (Response 404 (JError ''Unable to find note with given ID.''), d)
            | Some data \<Rightarrow> (Response 200 (JNote data), d)))"

text \<open>GET /getAllNotes\<close>

definition getAllNotes ::
  "'oid libs \<Rightarrow> nat \<Rightarrow> string option \<Rightarrow> 'oid db \<Rightarrow> 'oid outcome \<times> 'oid db" where
  "getAllNotes L now authorization d =
     with_token L now authorization d (\<lambda>username.
       (Response 200 (JNotes (filter (\<lambda>n. note_username n = username) (db_notes d))), d))"

text \<open>GET /deleteNote/:noteId\<close>

definition deleteNote ::
  "'oid libs \<Rightarrow> nat \<Rightarrow> string option \<Rightarrow> string \<Rightarrow> 'oid db \<Rightarrow> 'oid outcome \<times> 'oid db" where
  "deleteNote L now authorization noteId d =
     (case ObjectId_parse L noteId of
        None \<Rightarrow> (Response 400 (JError ''Invalid note ID.''), d)
      | Some oid \<Rightarrow>
          with_token L now authorization d (\<lambda>username.
            case findOneAndDelete (owned username oid) (db_notes d) of
              (None, ns) \<Rightarrow>
                (Response 404 (JError ''Unable to find note with given ID.''), d\<lparr>db_notes := ns\<rparr>)
            | (Some data, ns) \<Rightarrow>
                (Response 200
                   (JMessage (''Document with ID '' @ noteId @ '' deleted succesfully.'')),
                 d\<lparr>db_notes := ns\<rparr>)))"

text \<open>
  GET /editNote/:noteId. The callback checks the body, reads the original note, and
  sets both fields on the first document the same filter matches.
\<close>

definition editNote ::
  "'oid libs \<Rightarrow> nat \<Rightarrow> string option \<Rightarrow> string \<Rightarrow> string option \<Rightarrow> string option \<Rightarrow> 'oid db
     \<Rightarrow> 'oid outcome \<times> 'oid db" where
  "editNote L now authorization noteId title content d =
     (case ObjectId_parse L noteId of
        None \<Rightarrow> (Response 400 (JError ''Invalid note ID.''), d)
      | Some oid \<Rightarrow>
          with_token L now authorization d (\<lambda>username.
            if truthy title \<or> truthy content then
              (case find (owned username oid) (db_notes d) of
                 None \<Rightarrow> (Response 404 (JError ''Unable to find note with given ID.''), d)
               | Some originalNote \<Rightarrow>
                   (Response 200
                      (JMessage (''Document with ID '' @ noteId @ '' properly updated.'')),
                    d\<lparr>db_notes := update_first (owned username oid)
                        (\<lambda>n. n\<lparr>note_title := or_else title (note_title originalNote),
                                note_content := or_else content (note_content originalNote)\<rparr>)
                        (db_notes d)\<rparr>))
            else
              (Response 400 (JError ''A title or content are needed to update the note''), d)))"

subsection \<open>Requests in sequence\<close>

text \<open>The routes as one request type, and a run of requests served one after another.\<close>

datatype 'oid request =
    RegisterUser nat string "string option" "string option"
  | LoginUser nat "string option" "string option"
  | PostNote nat 'oid "string option" "string option" "string option"
  | GetNote nat "string option" string
  | GetAllNotes nat "string option"
  | DeleteNote nat "string option" string
  | EditNote nat "string option" string "string option" "string option"

fun handle :: "'oid libs \<Rightarrow> 'oid request \<Rightarrow> 'oid db \<Rightarrow> 'oid outcome \<times> 'oid db" where
  "handle L (RegisterUser now salt username password) d =
     registerUser L now salt username password d"
| "handle L (LoginUser now username password) d = loginUser L now username password d"
| "handle L (PostNote now new_id authorization title content) d =
     postNote L now new_id authorization title content d"
| "handle L (GetNote now authorization noteId) d = getNote L now authorization noteId d"
| "handle L (GetAllNotes now authorization) d = getAllNotes L now authorization d"
| "handle L (DeleteNote now authorization noteId) d = deleteNote L now authorization noteId d"
| "handle L (EditNote now authorization noteId title content) d =
     editNote L now authorization noteId title content d"

fun serve :: "'oid libs \<Rightarrow> 'oid request list \<Rightarrow> 'oid db \<Rightarrow> 'oid db" where
  "serve L [] d = d"
| "serve L (r # rs) d = serve L rs (snd (handle L r d))"

subsection \<open>Two registrations in flight\<close>

text \<open>
  The register handler gives control back at each \<open>await\<close>. Between its two database
  calls (\<open>findOne\<close>, then \<open>insertOne\<close> after \<open>bcrypt.hash\<close>) another request's code can
  run. A registration in flight is at its start, past the existence check, or finished;
  one step runs the handler up to its next database call.
\<close>

datatype 'oid registration =
    Start "string option" "string option"
  | Checked string string
  | Finished "'oid outcome"

fun register_step ::
  "'oid libs \<Rightarrow> nat \<Rightarrow> string \<Rightarrow> 'oid registration \<Rightarrow> 'oid db \<Rightarrow> 'oid registration \<times> 'oid db" where
  "register_step L now salt (Start username password) d =
     (if truthy username \<and> truthy password then
        (case findOne_user (db_users d) (val username) of
           Some existingUser \<Rightarrow> (Finished (Response 400 (JError ''Username already exists.'')), d)
         | None \<Rightarrow> (Checked (val username) (val password), d))
      else
        (Finished (Response 400 (JError ''Username and password both needed to register.'')), d))"
| "register_step L now salt (Checked username password) d =
     (let hashedPassword = bcrypt_hash L password salt;
          d' = d\<lparr>db_users := db_users d @
                 [\<lparr>user_username = username, user_password = hashedPassword\<rparr>]\<rparr>;
          token = jwt_sign L username ''secret-key'' 3600 now
      in (Finished (Response 201 (JToken ''User registered successfully.'' token)), d'))"
| "register_step L now salt (Finished r) d = (Finished r, d)"

text \<open>
  Two registrations and a schedule: \<open>False\<close> lets the first take its next step,
  \<open>True\<close> the second. Each has its own salt.
\<close>

fun interleave ::
  "'oid libs \<Rightarrow> nat \<Rightarrow> string \<Rightarrow> string \<Rightarrow> bool list
     \<Rightarrow> 'oid registration \<times> 'oid registration \<times> 'oid db
     \<Rightarrow> 'oid registration \<times> 'oid registration \<times> 'oid db" where
  "interleave L now salt1 salt2 [] s = s"
| "interleave L now salt1 salt2 (b # bs) (r1, r2, d) =
     (if b then
        (case register_step L now salt2 r2 d of
           (r2', d') \<Rightarrow> interleave L now salt1 salt2 bs (r1, r2', d'))
      else
        (case register_step L now salt1 r1 d of
           (r1', d') \<Rightarrow> interleave L now salt1 salt2 bs (r1', r2, d')))"

subsection \<open>An instance of the libraries\<close>

text \<open>
  One instance of \<open>libs\<close>, for running the handlers on concrete requests. Ids are the
  24 hexadecimal digits of an ObjectId in lower case. A token lists its expiry in unary,
  then the key and the username; a digest is the salt, a separator and the password.
\<close>

definition lower_hex :: "char \<Rightarrow> char" where
  "lower_hex c =
     (if c = CHR ''A'' then CHR ''a'' else if c = CHR ''B'' then CHR ''b''
      else if c = CHR ''C'' then CHR ''c'' else if c = CHR ''D'' then CHR ''d''
      else if c = CHR ''E'' then CHR ''e'' else if c = CHR ''F'' then CHR ''f'' else c)"

definition demo_ObjectId :: "string \<Rightarrow> string option" where
  "demo_ObjectId s =
     (if length s = 24 \<and> list_all (\<lambda>c. c \<in> set ''0123456789abcdefABCDEF'') s
      then Some (map lower_hex s) else None)"

definition demo_sign :: "string \<Rightarrow> string \<Rightarrow> nat \<Rightarrow> nat \<Rightarrow> string" where
  "demo_sign username key expiresIn now =
     replicate (now + expiresIn) (CHR ''1'') @ ''.'' @ key @ ''.'' @ username"

definition demo_verify :: "string \<Rightarrow> string \<Rightarrow> nat \<Rightarrow> string option" where
  "demo_verify token key now =
     (let exp = length (takeWhile (\<lambda>c. c = CHR ''1'') token);
          rest = drop exp token;
          mark = ''.'' @ key @ ''.''
      in if take (length mark) rest = mark \<and> now < exp
         then Some (drop (length mark) rest) else None)"

definition demo_hash :: "string \<Rightarrow> string \<Rightarrow> string" where
  "demo_hash password salt = salt @ ''$'' @ password"

definition demo_compare :: "string \<Rightarrow> string \<Rightarrow> bool" where
  "demo_compare password digest =
     (length password < length digest \<and>
      drop (length digest - length password - 1) digest = ''$'' @ password)"

definition demo :: "string libs" where
  "demo = \<lparr>ObjectId_parse = demo_ObjectId, jwt_sign = demo_sign, jwt_verify = demo_verify,
            bcrypt_hash = demo_hash, bcrypt_compare = demo_compare\<rparr>"

definition empty_db :: "string db" where
  "empty_db = \<lparr>db_users = [], db_notes = []\<rparr>"

text \<open>The database after \<open>alice\<close> has registered with password \<open>pw1\<close> and salt \<open>s1\<close>.\<close>

definition alice_db :: "string db" where
  "alice_db = \<lparr>db_users = [\<lparr>user_username = ''alice'', user_password = ''s1$pw1''\<rparr>],
                db_notes = []\<rparr>"

text \<open>The database after \<open>bob\<close> has registered too, and after \<open>alice\<close> has posted a note.\<close>

definition bob_db :: "string db" where
  "bob_db = \<lparr>db_users = [\<lparr>user_username = ''alice'', user_password = ''s1$pw1''\<rparr>,
                         \<lparr>user_username = ''bob'', user_password = ''s2$pw2''\<rparr>],
              db_notes = []\<rparr>"

definition alice_note :: "string note_doc" where
  "alice_note = \<lparr>note_id = ''65a1b2c3d4e5f60718293a4b'', note_title = ''t'',
                  note_content = ''c'', note_username = ''alice''\<rparr>"

definition note_db :: "string db" where
  "note_db = bob_db\<lparr>db_notes := [alice_note]\<rparr>"

section \<open>Properties\<close>

subsection \<open>Auxiliary facts\<close>

lemma truthy_Some [simp]: "truthy (Some s) = (s \<noteq> [])"
  by (simp add: truthy_def)

lemma with_token_invalid:
  "verify L (token_of h) now = None \<Longrightarrow>
     with_token L now (Some h) d body = (Response 401 (Text ''Unauthorized.''), d)"
  by (simp add: with_token_def)

lemma with_token_valid:
  "verify L (token_of h) now = Some username \<Longrightarrow>
     with_token L now (Some h) d body = body username"
  by (simp add: with_token_def)

lemma demo_simps:
  "ObjectId_parse demo = demo_ObjectId" "jwt_sign demo = demo_sign"
  "jwt_verify demo = demo_verify" "bcrypt_hash demo = demo_hash"
  "bcrypt_compare demo = demo_compare"
  by (simp_all add: demo_def)

text \<open>A request with no Authorization header at all is answered with 500, not 401.\<close>

lemma missing_header:
  "with_token L now None d body =
     (Response 500 (JErrorMessage TypeError_split_of_undefined), d)"
  "getAllNotes L now None d = (Response 500 (JErrorMessage TypeError_split_of_undefined), d)"
  by (simp_all add: getAllNotes_def with_token_def)

subsection \<open>The users collection along a run\<close>

lemma findOne_user_filter:
  "findOne_user us u = None \<longleftrightarrow> filter (\<lambda>x. user_username x = u) us = []"
  by (auto simp: findOne_user_def find_None_iff filter_empty_conv)

lemma users_unchanged:
  "db_users (snd (loginUser L now u p d)) = db_users d"
  "db_users (snd (postNote L now i a t c d)) = db_users d"
  "db_users (snd (getNote L now a n d)) = db_users d"
  "db_users (snd (getAllNotes L now a d)) = db_users d"
  "db_users (snd (deleteNote L now a n d)) = db_users d"
  "db_users (snd (editNote L now a n t c d)) = db_users d"
  by (auto simp: loginUser_def postNote_def getNote_def getAllNotes_def deleteNote_def
        editNote_def with_token_def findOneAndDelete_def Let_def
        split: option.splits)

text \<open>Once a username has a record, no request changes the records of that username.\<close>

lemma registerUser_accounts:
  assumes "filter (\<lambda>x. user_username x = u) (db_users d) \<noteq> []"
  shows "filter (\<lambda>x. user_username x = u) (db_users (snd (registerUser L now salt n p d)))
           = filter (\<lambda>x. user_username x = u) (db_users d)"
proof (cases "val n = u")
  case True
  with assms have "findOne_user (db_users d) (val n) \<noteq> None"
    by (simp add: findOne_user_filter)
  then show ?thesis
    by (auto simp: registerUser_def)
next
  case False
  then show ?thesis
    by (auto simp: registerUser_def Let_def split: option.splits)
qed

lemma handle_accounts:
  assumes "filter (\<lambda>x. user_username x = u) (db_users d) \<noteq> []"
  shows "filter (\<lambda>x. user_username x = u) (db_users (snd (handle L r d)))
           = filter (\<lambda>x. user_username x = u) (db_users d)"
  using assms by (cases r) (simp_all add: users_unchanged registerUser_accounts)

lemma serve_accounts:
  "filter (\<lambda>x. user_username x = u) (db_users d) \<noteq> [] \<Longrightarrow>
     filter (\<lambda>x. user_username x = u) (db_users (serve L rs d))
       = filter (\<lambda>x. user_username x = u) (db_users d)"
proof (induction rs arbitrary: d)
  case Nil
  then show ?case by simp
next
  case (Cons r rs)
  from Cons.prems
  have eq: "filter (\<lambda>x. user_username x = u) (db_users (snd (handle L r d)))
      = filter (\<lambda>x. user_username x = u) (db_users d)"
    by (rule handle_accounts)
  with Cons.prems
  have "filter (\<lambda>x. user_username x = u) (db_users (snd (handle L r d))) \<noteq> []"
    by simp
  from Cons.IH [OF this] eq show ?case by simp
qed

text \<open>What a 201 from the register route says about the request and the database.\<close>

lemma registerUser_created:
  assumes "registerUser L now salt username password d = (Response 201 body, d1)"
  shows "truthy username \<and> truthy password \<and>
         findOne_user (db_users d) (val username) = None \<and>
         body = JToken ''User registered successfully.''
                  (jwt_sign L (val username) ''secret-key'' 3600 now) \<and>
         d1 = d\<lparr>db_users := db_users d @
                 [\<lparr>user_username = val username,
                   user_password = bcrypt_hash L (val password) salt\<rparr>]\<rparr>"
  using assms by (auto simp: registerUser_def Let_def split: if_splits option.splits)

lemma register_alice:
  "registerUser demo 0 ''s1'' (Some ''alice'') (Some ''pw1'') empty_db =
     (Response 201 (JToken ''User registered successfully.''
        (demo_sign ''alice'' ''secret-key'' 3600 0)), alice_db)"
  by (simp add: registerUser_def demo_simps empty_db_def alice_db_def findOne_user_def val_def
        demo_hash_def)

subsection \<open>Lists as collections\<close>

lemma find_append_fresh:
  "find P xs = None \<Longrightarrow> find P (xs @ ys) = find P ys"
  by (induction xs) (auto split: if_splits)

lemma find_filter:
  "find P xs = (case filter P xs of [] \<Rightarrow> None | x # _ \<Rightarrow> Some x)"
  by (induction xs) auto

lemma find_Some_holds: "find P xs = Some n \<Longrightarrow> n \<in> set xs \<and> P n"
  by (induction xs) (auto split: if_splits)

lemma find_owned_absent:
  "oid \<notin> note_id ` set ns \<Longrightarrow> find (owned u oid) ns = None"
  by (auto simp: find_None_iff owned_def)

lemma delete_first_absent: "find P xs = None \<Longrightarrow> delete_first P xs = xs"
  by (induction xs) (auto split: if_splits)

lemma delete_first_remove1: "find P xs = Some n \<Longrightarrow> delete_first P xs = remove1 n xs"
  by (induction xs) (auto split: if_splits dest: find_Some_holds)

lemma delete_first_subset: "set (delete_first P xs) \<subseteq> set xs"
  by (induction xs) auto

lemma delete_first_distinct:
  "distinct (map f xs) \<Longrightarrow> distinct (map f (delete_first P xs))"
proof (induction xs)
  case Nil
  then show ?case by simp
next
  case (Cons x xs)
  from delete_first_subset [of P xs] Cons.prems
  have "f x \<notin> f ` set (delete_first P xs)" by auto
  with Cons show ?case by simp
qed

text \<open>The unique index on \<open>_id\<close>: two documents with one id are one document.\<close>

lemma distinct_ids_unique:
  "distinct (map note_id ns) \<Longrightarrow> n \<in> set ns \<Longrightarrow> m \<in> set ns \<Longrightarrow>
     note_id m = note_id n \<Longrightarrow> m = n"
  by (meson distinct_map inj_onD)

lemma update_first_map:
  "(\<And>x. g (f x) = g x) \<Longrightarrow> map g (update_first P f xs) = map g xs"
  by (induction xs) auto

lemma update_first_find:
  "find P xs = Some n \<Longrightarrow> P (f n) \<Longrightarrow> find P (update_first P f xs) = Some (f n)"
  by (induction xs) (auto split: if_splits)

lemma update_first_others:
  "(\<And>x. P x \<Longrightarrow> P (f x)) \<Longrightarrow>
     filter (\<lambda>x. \<not> P x) (update_first P f xs) = filter (\<lambda>x. \<not> P x) xs"
  by (induction xs) auto

lemma owned_update [simp]:
  "owned u oid (n\<lparr>note_title := a, note_content := b\<rparr>) = owned u oid n"
  by (simp add: owned_def)

subsection \<open>The instance of the libraries\<close>

lemma demo_jwt:
  "t < now + e \<Longrightarrow> demo_verify (demo_sign u k e now) k t = Some u"
proof -
  have "takeWhile (\<lambda>c. c = CHR ''1'') (replicate n (CHR ''1'') @ CHR ''.'' # r)
          = replicate n (CHR ''1'')" for n r
    by (induction n) auto
  then show ?thesis if "t < now + e"
    using that by (simp add: demo_verify_def demo_sign_def Let_def)
qed

lemma demo_bcrypt: "demo_compare p (demo_hash p s)"
  by (simp add: demo_compare_def demo_hash_def)

lemma demo_tokens:
  "verify demo (token_of ''Bearer 111111111.secret-key.alice'') 5 = Some ''alice''"
  "verify demo (token_of ''Bearer 111111111.secret-key.alice'') 8 = Some ''alice''"
  "verify demo (token_of ''Bearer 111111111.secret-key.bob'') 6 = Some ''bob''"
  by (simp_all add: verify_def token_of_def demo_simps demo_verify_def)

lemma demo_id:
  "ObjectId_parse demo ''65A1B2C3D4E5F60718293A4B'' = Some ''65a1b2c3d4e5f60718293a4b''"
  "ObjectId_parse demo ''65a1b2c3d4e5f60718293a4b'' = Some ''65a1b2c3d4e5f60718293a4b''"
  by (simp_all add: demo_simps demo_ObjectId_def lower_hex_def)

subsection \<open>The notes collection along a run\<close>

text \<open>An edit changes neither the ids nor the owners of the notes, nor the users.\<close>

lemma editNote_keys:
  "map note_id (db_notes (snd (editNote L now authorization noteId title content d)))
     = map note_id (db_notes d) \<and>
   map note_username (db_notes (snd (editNote L now authorization noteId title content d)))
     = map note_username (db_notes d) \<and>
   db_users (snd (editNote L now authorization noteId title content d)) = db_users d"
  by (auto simp: editNote_def with_token_def update_first_map split: option.splits)

text \<open>No two notes share an id, in the empty database and after every request.\<close>

lemma handle_distinct_ids:
  assumes "distinct (map note_id (db_notes d))"
  shows "distinct (map note_id (db_notes (snd (handle L r d))))"
proof (cases r)
  case (RegisterUser now salt u p)
  with assms show ?thesis
    by (auto simp: registerUser_def Let_def split: option.splits)
next
  case (LoginUser now u p)
  with assms show ?thesis
    by (auto simp: loginUser_def Let_def split: option.splits)
next
  case (PostNote now i a t c)
  with assms show ?thesis
    by (auto simp: postNote_def with_token_def split: option.splits)
next
  case (GetNote now a n)
  with assms show ?thesis
    by (auto simp: getNote_def with_token_def split: option.splits)
next
  case (GetAllNotes now a)
  with assms show ?thesis
    by (auto simp: getAllNotes_def with_token_def split: option.splits)
next
  case (DeleteNote now a n)
  with assms show ?thesis
    by (auto simp: deleteNote_def with_token_def findOneAndDelete_def delete_first_distinct
          split: option.splits)
next
  case (EditNote now a n t c)
  with assms editNote_keys [of L now a n t c d] show ?thesis
    by simp
qed

lemma serve_distinct_ids:
  "distinct (map note_id (db_notes d)) \<Longrightarrow> distinct (map note_id (db_notes (serve L rs d)))"
  by (induction rs arbitrary: d) (simp_all add: handle_distinct_ids)

subsection \<open>The step model of registration\<close>

text \<open>Taken alone, the two steps of a registration are the register route.\<close>

lemma register_step_sequential:
  "register_step L now salt (fst (register_step L now salt (Start u p) d))
     (snd (register_step L now salt (Start u p) d)) =
   (Finished (fst (registerUser L now salt u p d)), snd (registerUser L now salt u p d))"
  by (auto simp: registerUser_def Let_def split: option.splits)

text \<open>Two registrations scheduled one after the other are two calls of the route.\<close>

lemma interleave_serial:
  "interleave L now salt1 salt2 [False, False, True, True]
     (Start u1 p1, Start u2 p2, d) =
   (Finished (fst (registerUser L now salt1 u1 p1 d)),
    Finished (fst (registerUser L now salt2 u2 p2 (snd (registerUser L now salt1 u1 p1 d)))),
    snd (registerUser L now salt2 u2 p2 (snd (registerUser L now salt1 u1 p1 d))))"
  by (auto simp: registerUser_def Let_def split: option.splits)

subsection \<open>Checks that come before the token\<close>

text \<open>
  Create without a title or without a content is answered 400 whatever the
  Authorization header is; for get, delete and update the id check plays that part.
\<close>

lemma postNote_requires_fields:
  "\<not> (truthy title \<and> truthy content) \<Longrightarrow>
     postNote L now new_id authorization title content d =
       (Response 400 (JError ''Title and content are both required.''), d)"
  by (auto simp: postNote_def)

subsection \<open>Token failures\<close>

text \<open>
  C2, as the routes order their checks. Every note route answers 401 Unauthorized with
  the database untouched when the Authorization header is present and its token fails
  verification (no second field, an empty token, or any token \<open>jwt.verify\<close> rejects:
  malformed, tampered with, expired), provided the request has passed the check that the
  route makes before it reads the token: title and content both non-empty for create,
  a well-formed id for get, delete and update. The callback that holds every collection
  call is not run, whatever it is.
\<close>

theorem C2_invalid_token_unauthorized:
  assumes "verify L (token_of h) now = None"
  shows "(truthy title \<and> truthy content \<longrightarrow>
            postNote L now new_id (Some h) title content d =
              (Response 401 (Text ''Unauthorized.''), d)) \<and>
         (ObjectId_parse L noteId \<noteq> None \<longrightarrow>
            getNote L now (Some h) noteId d = (Response 401 (Text ''Unauthorized.''), d) \<and>
            deleteNote L now (Some h) noteId d = (Response 401 (Text ''Unauthorized.''), d) \<and>
            editNote L now (Some h) noteId title content d =
              (Response 401 (Text ''Unauthorized.''), d)) \<and>
         getAllNotes L now (Some h) d = (Response 401 (Text ''Unauthorized.''), d) \<and>
         (\<forall>body. with_token L now (Some h) d body = (Response 401 (Text ''Unauthorized.''), d))"
  using assms
  by (auto simp: postNote_def getNote_def deleteNote_def editNote_def getAllNotes_def
        with_token_invalid)

theorem C2_invalid_token_unauthorized_witness:
  "verify demo (token_of ''Bearer forged'') 0 = None \<and>
   postNote demo 0 ''65a1b2c3d4e5f60718293a4b'' (Some ''Bearer forged'') (Some ''t'') (Some ''c'')
       alice_db = (Response 401 (Text ''Unauthorized.''), alice_db) \<and>
   getNote demo 0 (Some ''Bearer forged'') ''65a1b2c3d4e5f60718293a4b'' alice_db =
     (Response 401 (Text ''Unauthorized.''), alice_db) \<and>
   deleteNote demo 0 (Some ''Bearer forged'') ''65a1b2c3d4e5f60718293a4b'' alice_db =
     (Response 401 (Text ''Unauthorized.''), alice_db) \<and>
   editNote demo 0 (Some ''Bearer forged'') ''65a1b2c3d4e5f60718293a4b'' (Some ''t'') (Some ''c'')
       alice_db = (Response 401 (Text ''Unauthorized.''), alice_db) \<and>
   getAllNotes demo 0 (Some ''Bearer forged'') alice_db =
     (Response 401 (Text ''Unauthorized.''), alice_db)"
proof -
  have v: "verify demo (token_of ''Bearer forged'') 0 = None"
    by (simp add: verify_def token_of_def demo_simps demo_verify_def)
  have i: "ObjectId_parse demo ''65a1b2c3d4e5f60718293a4b'' \<noteq> None"
    by (simp add: demo_simps demo_ObjectId_def)
  from C2_invalid_token_unauthorized [OF v, of "Some ''t''" "Some ''c''"
      "''65a1b2c3d4e5f60718293a4b''" alice_db "''65a1b2c3d4e5f60718293a4b''"] v i
  show ?thesis by simp
qed

text \<open>
  C2 as stated fails: with a token that does not verify, get with a malformed id is
  answered 400 Invalid note ID, and create with the title missing is answered 400, not
  401.
\<close>

theorem C2_counterexample:
  "verify demo (token_of ''Bearer forged'') 0 = None \<and>
   getNote demo 0 (Some ''Bearer forged'') ''not-an-id'' alice_db =
     (Response 400 (JError ''Invalid note ID.''), alice_db) \<and>
   postNote demo 0 ''65a1b2c3d4e5f60718293a4b'' (Some ''Bearer forged'') None (Some ''c'')
       alice_db = (Response 400 (JError ''Title and content are both required.''), alice_db)"
  by (simp add: verify_def token_of_def demo_simps demo_verify_def getNote_def postNote_def
      demo_ObjectId_def truthy_def)

text \<open>
  C10. For get, delete and update, a note id that is not a well-formed ObjectId is
  answered 400 Invalid note ID whatever the Authorization header is (absent, or with any
  token, valid or not): the id check comes first, and the database is left as it was.
\<close>

theorem C10_id_check_before_token:
  assumes "ObjectId_parse L noteId = None"
  shows "getNote L now authorization noteId d =
           (Response 400 (JError ''Invalid note ID.''), d) \<and>
         deleteNote L now authorization noteId d =
           (Response 400 (JError ''Invalid note ID.''), d) \<and>
         editNote L now authorization noteId title content d =
           (Response 400 (JError ''Invalid note ID.''), d)"
  using assms by (simp add: getNote_def deleteNote_def editNote_def)

theorem C10_id_check_before_token_witness:
  "ObjectId_parse demo ''not-an-id'' = None \<and>
   getNote demo 0 None ''not-an-id'' empty_db =
     (Response 400 (JError ''Invalid note ID.''), empty_db) \<and>
   deleteNote demo 0 (Some ''Bearer expired'') ''not-an-id'' empty_db =
     (Response 400 (JError ''Invalid note ID.''), empty_db) \<and>
   editNote demo 0 None ''not-an-id'' (Some ''t'') None empty_db =
     (Response 400 (JError ''Invalid note ID.''), empty_db)"
proof -
  have h: "ObjectId_parse demo ''not-an-id'' = None"
    by (simp add: demo_simps demo_ObjectId_def)
  from C10_id_check_before_token [OF h, of 0 None empty_db]
       C10_id_check_before_token [OF h, of 0 "Some ''Bearer expired''" empty_db]
       C10_id_check_before_token [OF h, of 0 None empty_db "Some ''t''" None] h
  show ?thesis by simp
qed

subsection \<open>Registration and login\<close>

text \<open>
  C4. A login for a username with no record and a login for a registered username with
  a password that \<open>bcrypt.compare\<close> rejects get the same answer, status 401 with the
  message Authentication failed, and neither changes the database.
\<close>

theorem C4_login_failures_identical:
  assumes "truthy u1" "truthy p1" "truthy u2" "truthy p2"
      and "findOne_user (db_users d1) (val u1) = None"
      and "findOne_user (db_users d2) (val u2) = Some user"
      and "\<not> bcrypt_compare L (val p2) (user_password user)"
  shows "loginUser L now1 u1 p1 d1 = (Response 401 (JError ''Authentication failed.''), d1) \<and>
         loginUser L now2 u2 p2 d2 = (Response 401 (JError ''Authentication failed.''), d2)"
  using assms by (simp add: loginUser_def)

theorem C4_login_failures_identical_witness:
  "truthy (Some ''bob'') \<and> truthy (Some ''pw1'') \<and> truthy (Some ''alice'') \<and>
   truthy (Some ''guess'') \<and>
   findOne_user (db_users alice_db) (val (Some ''bob'')) = None \<and>
   findOne_user (db_users alice_db) (val (Some ''alice'')) =
     Some \<lparr>user_username = ''alice'', user_password = ''s1$pw1''\<rparr> \<and>
   \<not> bcrypt_compare demo (val (Some ''guess''))
        (user_password \<lparr>user_username = ''alice'', user_password = ''s1$pw1''\<rparr>) \<and>
   loginUser demo 5 (Some ''bob'') (Some ''pw1'') alice_db =
     (Response 401 (JError ''Authentication failed.''), alice_db) \<and>
   loginUser demo 6 (Some ''alice'') (Some ''guess'') alice_db =
     (Response 401 (JError ''Authentication failed.''), alice_db)"
proof -
  have a: "findOne_user (db_users alice_db) (val (Some ''bob'')) = None"
    by (simp add: findOne_user_def alice_db_def val_def)
  have b: "findOne_user (db_users alice_db) (val (Some ''alice'')) =
     Some \<lparr>user_username = ''alice'', user_password = ''s1$pw1''\<rparr>"
    by (simp add: findOne_user_def alice_db_def val_def)
  have c: "\<not> bcrypt_compare demo (val (Some ''guess''))
        (user_password \<lparr>user_username = ''alice'', user_password = ''s1$pw1''\<rparr>)"
    by (simp add: demo_simps demo_compare_def val_def)
  have t: "truthy (Some ''bob'')" "truthy (Some ''pw1'')" "truthy (Some ''alice'')"
    "truthy (Some ''guess'')" by simp_all
  from C4_login_failures_identical [OF t a b c, of 5 6] a b c t show ?thesis by simp
qed

text \<open>
  C7. After a registration of a username has succeeded (201), and after any requests
  served since, a registration of the same username with any non-empty password is
  answered 400 Username already exists and leaves the database as it was; the username
  has exactly one record.
\<close>

theorem C7_second_registration_rejected:
  assumes "registerUser L now1 salt1 username p1 d = (Response 201 body, d1)"
      and "truthy p2"
  shows "registerUser L now2 salt2 username p2 (serve L rs d1) =
           (Response 400 (JError ''Username already exists.''), serve L rs d1) \<and>
         length (filter (\<lambda>x. user_username x = val username)
           (db_users (serve L rs d1))) = 1"
proof -
  from registerUser_created [OF assms(1)]
  have u: "truthy username" and none: "findOne_user (db_users d) (val username) = None"
    and d1: "d1 = d\<lparr>db_users := db_users d @
                 [\<lparr>user_username = val username,
                   user_password = bcrypt_hash L (val p1) salt1\<rparr>]\<rparr>"
    by simp_all
  from none d1
  have "filter (\<lambda>x. user_username x = val username) (db_users d1) =
      [\<lparr>user_username = val username, user_password = bcrypt_hash L (val p1) salt1\<rparr>]"
    by (simp add: findOne_user_filter)
  then have "filter (\<lambda>x. user_username x = val username) (db_users (serve L rs d1)) =
      [\<lparr>user_username = val username, user_password = bcrypt_hash L (val p1) salt1\<rparr>]"
    by (simp add: serve_accounts)
  then have len: "length (filter (\<lambda>x. user_username x = val username)
        (db_users (serve L rs d1))) = 1"
    and "findOne_user (db_users (serve L rs d1)) (val username) \<noteq> None"
    by (simp_all add: findOne_user_filter)
  with u assms(2)
  have "registerUser L now2 salt2 username p2 (serve L rs d1) =
           (Response 400 (JError ''Username already exists.''), serve L rs d1)"
    by (auto simp: registerUser_def)
  with len show ?thesis by simp
qed

theorem C7_second_registration_rejected_witness:
  "registerUser demo 0 ''s1'' (Some ''alice'') (Some ''pw1'') empty_db =
     (Response 201 (JToken ''User registered successfully.''
        (demo_sign ''alice'' ''secret-key'' 3600 0)), alice_db) \<and>
   truthy (Some ''pw2'') \<and>
   registerUser demo 7 ''s2'' (Some ''alice'') (Some ''pw2'')
       (serve demo [LoginUser 5 (Some ''alice'') (Some ''pw1'')] alice_db) =
     (Response 400 (JError ''Username already exists.''),
      serve demo [LoginUser 5 (Some ''alice'') (Some ''pw1'')] alice_db) \<and>
   length (filter (\<lambda>x. user_username x = val (Some ''alice''))
     (db_users (serve demo [LoginUser 5 (Some ''alice'') (Some ''pw1'')] alice_db))) = 1"
proof -
  have t: "truthy (Some ''pw2'')" by simp
  from C7_second_registration_rejected [OF register_alice t, of 7 "''s2''"
      "[LoginUser 5 (Some ''alice'') (Some ''pw1'')]"] register_alice t
  show ?thesis by simp
qed

text \<open>
  C3. For a non-empty username with no record yet and a non-empty password, registration
  is answered 201 with a token; a login with the same credentials, at once or after any
  requests served in between, is answered 200 with a token; and each token, verified with
  the server's key before its hour has passed, yields that username. What is asked of
  the libraries: \<open>bcrypt.compare\<close> accepts the password against its own hash, and
  \<open>jwt.verify\<close> returns the signed username until the expiry.
\<close>

theorem C3_register_then_login:
  assumes "username \<noteq> []" "password \<noteq> []"
      and "findOne_user (db_users d) username = None"
      and hash: "bcrypt_compare L password (bcrypt_hash L password salt)"
      and jwt: "\<And>now t. t < now + 3600 \<Longrightarrow>
             jwt_verify L (jwt_sign L username ''secret-key'' 3600 now) ''secret-key'' t
               = Some username"
  shows "\<exists>tok1 tok2 d1.
           registerUser L now1 salt (Some username) (Some password) d =
             (Response 201 (JToken ''User registered successfully.'' tok1), d1) \<and>
           loginUser L now2 (Some username) (Some password) (serve L rs d1) =
             (Response 200 (JToken ''User logged in succesfully.'' tok2), serve L rs d1) \<and>
           (\<forall>t < now1 + 3600. jwt_verify L tok1 ''secret-key'' t = Some username) \<and>
           (\<forall>t < now2 + 3600. jwt_verify L tok2 ''secret-key'' t = Some username)"
proof -
  let ?rec = "\<lparr>user_username = username, user_password = bcrypt_hash L password salt\<rparr>"
  let ?d1 = "d\<lparr>db_users := db_users d @ [?rec]\<rparr>"
  let ?tok1 = "jwt_sign L username ''secret-key'' 3600 now1"
  let ?tok2 = "jwt_sign L username ''secret-key'' 3600 now2"
  from assms(1-3)
  have reg: "registerUser L now1 salt (Some username) (Some password) d =
               (Response 201 (JToken ''User registered successfully.'' ?tok1), ?d1)"
    by (simp add: registerUser_def val_def)
  from assms(3)
  have "filter (\<lambda>x. user_username x = username) (db_users ?d1) = [?rec]"
    by (simp add: findOne_user_filter)
  then have "filter (\<lambda>x. user_username x = username) (db_users (serve L rs ?d1)) = [?rec]"
    by (simp add: serve_accounts)
  then have "findOne_user (db_users (serve L rs ?d1)) username = Some ?rec"
    by (simp add: findOne_user_def find_filter)
  with assms(1,2) hash
  have login: "loginUser L now2 (Some username) (Some password) (serve L rs ?d1) =
             (Response 200 (JToken ''User logged in succesfully.'' ?tok2), serve L rs ?d1)"
    by (simp add: loginUser_def val_def)
  from reg login jwt show ?thesis by blast
qed

theorem C3_register_then_login_witness:
  "registerUser demo 0 ''s1'' (Some ''alice'') (Some ''pw1'') empty_db =
     (Response 201 (JToken ''User registered successfully.''
        (demo_sign ''alice'' ''secret-key'' 3600 0)), alice_db) \<and>
   loginUser demo 60 (Some ''alice'') (Some ''pw1'') alice_db =
     (Response 200 (JToken ''User logged in succesfully.''
        (demo_sign ''alice'' ''secret-key'' 3600 60)), alice_db) \<and>
   jwt_verify demo (demo_sign ''alice'' ''secret-key'' 3600 0) ''secret-key'' 3599
     = Some ''alice'' \<and>
   jwt_verify demo (demo_sign ''alice'' ''secret-key'' 3600 60) ''secret-key'' 3659
     = Some ''alice''"
proof -
  have a: "''alice'' \<noteq> []" "''pw1'' \<noteq> []" by simp_all
  have b: "findOne_user (db_users empty_db) ''alice'' = None"
    by (simp add: findOne_user_def empty_db_def)
  have c: "bcrypt_compare demo ''pw1'' (bcrypt_hash demo ''pw1'' ''s1'')"
    by (simp add: demo_simps demo_bcrypt)
  have e: "jwt_verify demo (jwt_sign demo ''alice'' ''secret-key'' 3600 now) ''secret-key'' t
             = Some ''alice''" if "t < now + 3600" for now t
    using that by (simp add: demo_simps demo_jwt)
  from C3_register_then_login [OF a b c e, of 0 60 "[]"]
  obtain tok1 tok2 d1 where
    r: "registerUser demo 0 ''s1'' (Some ''alice'') (Some ''pw1'') empty_db =
          (Response 201 (JToken ''User registered successfully.'' tok1), d1)"
    and l: "loginUser demo 60 (Some ''alice'') (Some ''pw1'') (serve demo [] d1) =
          (Response 200 (JToken ''User logged in succesfully.'' tok2), serve demo [] d1)"
    and v1: "\<forall>t < 0 + 3600. jwt_verify demo tok1 ''secret-key'' t = Some ''alice''"
    and v2: "\<forall>t < 60 + 3600. jwt_verify demo tok2 ''secret-key'' t = Some ''alice''"
    by blast
  from r register_alice have t1: "tok1 = demo_sign ''alice'' ''secret-key'' 3600 0"
    and d1: "d1 = alice_db" by simp_all
  from l d1 have "tok2 = demo_sign ''alice'' ''secret-key'' 3600 60"
    by (simp add: loginUser_def demo_simps alice_db_def findOne_user_def val_def
          demo_compare_def split: if_splits)
  with r l v1 v2 t1 d1 show ?thesis by simp
qed

text \<open>
  C8 is about two registrations of one username in flight at once. The claim asks that
  exactly one succeeds. In the code both existence checks can run before either insert:
  with the schedule check, check, insert, insert on an empty collection, both requests
  are answered 201 and the collection holds two records for the username.
\<close>

theorem C8_both_concurrent_registrations_succeed:
  "interleave L now ''s1'' ''s2'' [False, True, False, True]
     (Start (Some ''alice'') (Some ''pw1''), Start (Some ''alice'') (Some ''pw2''),
      \<lparr>db_users = [], db_notes = []\<rparr>) =
   (Finished (Response 201 (JToken ''User registered successfully.''
       (jwt_sign L ''alice'' ''secret-key'' 3600 now))),
    Finished (Response 201 (JToken ''User registered successfully.''
       (jwt_sign L ''alice'' ''secret-key'' 3600 now))),
    \<lparr>db_users = [\<lparr>user_username = ''alice'', user_password = bcrypt_hash L ''pw1'' ''s1''\<rparr>,
                 \<lparr>user_username = ''alice'', user_password = bcrypt_hash L ''pw2'' ''s2''\<rparr>],
     db_notes = []\<rparr>)"
  by (simp add: findOne_user_def val_def)

subsection \<open>Notes\<close>

text \<open>
  C9. With a token that verifies to \<open>u\<close>, a non-empty title and content, and an id from
  the driver that no stored note has, create is answered 200 with that id; a get with a
  token of \<open>u\<close> and a note id that reads as the returned id is then answered 200 with the
  note: the submitted title, the submitted content, and \<open>u\<close> as owner.
\<close>

theorem C9_create_then_get:
  assumes "verify L (token_of h) now1 = Some u"
      and "verify L (token_of h') now2 = Some u"
      and "title \<noteq> []" "content \<noteq> []"
      and "new_id \<notin> note_id ` set (db_notes d)"
      and "ObjectId_parse L noteId = Some new_id"
  shows "\<exists>d1. postNote L now1 new_id (Some h) (Some title) (Some content) d =
                (Response 200 (JInserted ''Note added succesfully.'' new_id), d1) \<and>
              getNote L now2 (Some h') noteId d1 =
                (Response 200 (JNote \<lparr>note_id = new_id, note_title = title,
                   note_content = content, note_username = u\<rparr>), d1)"
proof -
  let ?n = "\<lparr>note_id = new_id, note_title = title, note_content = content,
             note_username = u\<rparr>"
  let ?d1 = "d\<lparr>db_notes := db_notes d @ [?n]\<rparr>"
  from assms(1,3,4,5)
  have post: "postNote L now1 new_id (Some h) (Some title) (Some content) d =
                (Response 200 (JInserted ''Note added succesfully.'' new_id), ?d1)"
    by (simp add: postNote_def with_token_valid val_def)
  from assms(5) have "find (owned u new_id) (db_notes d) = None"
    by (rule find_owned_absent)
  then have "find (owned u new_id) (db_notes ?d1) = Some ?n"
    by (simp add: find_append_fresh owned_def)
  with assms(2,6) have "getNote L now2 (Some h') noteId ?d1 = (Response 200 (JNote ?n), ?d1)"
    by (simp add: getNote_def with_token_valid)
  with post show ?thesis by blast
qed

theorem C9_create_then_get_witness:
  "postNote demo 5 ''65a1b2c3d4e5f60718293a4b'' (Some ''Bearer 111111111.secret-key.alice'')
       (Some ''t'') (Some ''c'') bob_db =
     (Response 200 (JInserted ''Note added succesfully.'' ''65a1b2c3d4e5f60718293a4b''),
      note_db) \<and>
   getNote demo 8 (Some ''Bearer 111111111.secret-key.alice'') ''65A1B2C3D4E5F60718293A4B''
       note_db = (Response 200 (JNote alice_note), note_db)"
proof -
  have f: "''65a1b2c3d4e5f60718293a4b'' \<notin> note_id ` set (db_notes bob_db)"
    by (simp add: bob_db_def)
  have t: "''t'' \<noteq> []" "''c'' \<noteq> []" by simp_all
  from C9_create_then_get [OF demo_tokens(1) demo_tokens(2) t f demo_id(1)]
  obtain d1 where
    p: "postNote demo 5 ''65a1b2c3d4e5f60718293a4b''
       (Some ''Bearer 111111111.secret-key.alice'') (Some ''t'') (Some ''c'') bob_db =
     (Response 200 (JInserted ''Note added succesfully.'' ''65a1b2c3d4e5f60718293a4b''), d1)"
    and g: "getNote demo 8 (Some ''Bearer 111111111.secret-key.alice'')
       ''65A1B2C3D4E5F60718293A4B'' d1 =
     (Response 200 (JNote \<lparr>note_id = ''65a1b2c3d4e5f60718293a4b'', note_title = ''t'',
        note_content = ''c'', note_username = ''alice''\<rparr>), d1)"
    by blast
  from p demo_tokens(1) have "d1 = note_db"
    by (simp add: postNote_def with_token_valid bob_db_def note_db_def alice_note_def val_def)
  with p g show ?thesis by (simp add: alice_note_def)
qed

text \<open>
  C5. With a valid token for \<open>u\<close> and a well-formed id, in a database whose note ids are
  distinct: when no note with that id and owner \<open>u\<close> exists, delete is answered 404 and
  the database is unchanged; when the note exists, delete is answered 200, exactly that
  note leaves the collection, no note with the id is left, and every later get of the id
  with a valid token is answered 404.
\<close>

theorem C5_delete:
  assumes "verify L (token_of h) now = Some u"
      and "ObjectId_parse L noteId = Some oid"
      and "distinct (map note_id (db_notes d))"
  shows "(find (owned u oid) (db_notes d) = None \<longrightarrow>
            deleteNote L now (Some h) noteId d =
              (Response 404 (JError ''Unable to find note with given ID.''), d)) \<and>
         (\<forall>n. find (owned u oid) (db_notes d) = Some n \<longrightarrow>
            (\<exists>d1. deleteNote L now (Some h) noteId d =
                     (Response 200
                        (JMessage (''Document with ID '' @ noteId @ '' deleted succesfully.'')),
                      d1) \<and>
                   db_users d1 = db_users d \<and>
                   set (db_notes d1) = set (db_notes d) - {n} \<and>
                   oid \<notin> note_id ` set (db_notes d1) \<and>
                   (\<forall>now' h' u'. verify L (token_of h') now' = Some u' \<longrightarrow>
                      getNote L now' (Some h') noteId d1 =
                        (Response 404 (JError ''Unable to find note with given ID.''), d1))))"
proof (intro conjI allI impI)
  assume "find (owned u oid) (db_notes d) = None"
  with assms(1,2) show "deleteNote L now (Some h) noteId d =
      (Response 404 (JError ''Unable to find note with given ID.''), d)"
    by (simp add: deleteNote_def with_token_valid findOneAndDelete_def delete_first_absent)
next
  fix n assume f: "find (owned u oid) (db_notes d) = Some n"
  let ?d1 = "d\<lparr>db_notes := delete_first (owned u oid) (db_notes d)\<rparr>"
  from assms(1,2) f
  have del: "deleteNote L now (Some h) noteId d =
       (Response 200 (JMessage (''Document with ID '' @ noteId @ '' deleted succesfully.'')),
        ?d1)"
    by (simp add: deleteNote_def with_token_valid findOneAndDelete_def)
  from assms(3) have dist: "distinct (db_notes d)"
    by (rule distinct_map [THEN iffD1, THEN conjunct1])
  with f have rest: "set (db_notes ?d1) = set (db_notes d) - {n}"
    by (simp add: delete_first_remove1)
  from f have n: "n \<in> set (db_notes d)" "note_id n = oid"
    by (auto dest: find_Some_holds simp: owned_def)
  have gone: "oid \<notin> note_id ` set (db_notes ?d1)"
    using distinct_ids_unique [OF assms(3) n(1)] n(2) rest by auto
  have get: "getNote L now' (Some h') noteId ?d1 =
        (Response 404 (JError ''Unable to find note with given ID.''), ?d1)"
    if "verify L (token_of h') now' = Some u'" for now' h' u'
    using that assms(2) find_owned_absent [OF gone, of u']
    by (simp add: getNote_def with_token_valid)
  from del rest gone get
  show "\<exists>d1. deleteNote L now (Some h) noteId d =
                     (Response 200
                        (JMessage (''Document with ID '' @ noteId @ '' deleted succesfully.'')),
                      d1) \<and>
                   db_users d1 = db_users d \<and>
                   set (db_notes d1) = set (db_notes d) - {n} \<and>
                   oid \<notin> note_id ` set (db_notes d1) \<and>
                   (\<forall>now' h' u'. verify L (token_of h') now' = Some u' \<longrightarrow>
                      getNote L now' (Some h') noteId d1 =
                        (Response 404 (JError ''Unable to find note with given ID.''), d1))"
    by (intro exI [of _ ?d1]) simp
qed

theorem C5_delete_witness:
  "deleteNote demo 6 (Some ''Bearer 111111111.secret-key.bob'') ''65a1b2c3d4e5f60718293a4b''
       note_db = (Response 404 (JError ''Unable to find note with given ID.''), note_db) \<and>
   deleteNote demo 5 (Some ''Bearer 111111111.secret-key.alice'') ''65a1b2c3d4e5f60718293a4b''
       note_db =
     (Response 200 (JMessage ''Document with ID 65a1b2c3d4e5f60718293a4b deleted succesfully.''),
      bob_db) \<and>
   getNote demo 8 (Some ''Bearer 111111111.secret-key.alice'') ''65a1b2c3d4e5f60718293a4b''
       bob_db = (Response 404 (JError ''Unable to find note with given ID.''), bob_db)"
proof -
  have dist: "distinct (map note_id (db_notes note_db))"
    by (simp add: note_db_def)
  have none: "find (owned ''bob'' ''65a1b2c3d4e5f60718293a4b'') (db_notes note_db) = None"
    by (simp add: note_db_def alice_note_def owned_def)
  have some: "find (owned ''alice'' ''65a1b2c3d4e5f60718293a4b'') (db_notes note_db)
      = Some alice_note"
    by (simp add: note_db_def alice_note_def owned_def)
  from C5_delete [OF demo_tokens(3) demo_id(2) dist] none
  have a: "deleteNote demo 6 (Some ''Bearer 111111111.secret-key.bob'')
      ''65a1b2c3d4e5f60718293a4b'' note_db =
     (Response 404 (JError ''Unable to find note with given ID.''), note_db)"
    by blast
  from C5_delete [OF demo_tokens(1) demo_id(2) dist] some
  obtain d1 where
    del: "deleteNote demo 5 (Some ''Bearer 111111111.secret-key.alice'')
        ''65a1b2c3d4e5f60718293a4b'' note_db =
      (Response 200 (JMessage (''Document with ID '' @ ''65a1b2c3d4e5f60718293a4b'' @
         '' deleted succesfully.'')), d1)"
    and get: "\<forall>now' h' u'. verify demo (token_of h') now' = Some u' \<longrightarrow>
       getNote demo now' (Some h') ''65a1b2c3d4e5f60718293a4b'' d1 =
         (Response 404 (JError ''Unable to find note with given ID.''), d1)"
    by blast
  from del demo_tokens(1) demo_id(2) have d1: "d1 = bob_db"
    by (simp add: deleteNote_def with_token_valid findOneAndDelete_def note_db_def
          alice_note_def owned_def bob_db_def)
  from get demo_tokens(2)
  have "getNote demo 8 (Some ''Bearer 111111111.secret-key.alice'')
      ''65a1b2c3d4e5f60718293a4b'' d1 =
         (Response 404 (JError ''Unable to find note with given ID.''), d1)"
    by blast
  with a del d1 show ?thesis by simp
qed

text \<open>
  C6. For a note the caller owns (valid token, well-formed id, the note found): an update
  with a title and no content is answered 200 and the stored note is the old one with
  the new title, its content as before; likewise with a content and no title; every
  other note is as it was. An update with neither a title nor a content (absent or
  empty) is answered 400 and the database is unchanged. No update changes the id or the
  owner of any note.
\<close>

theorem C6_update_frame:
  assumes "verify L (token_of h) now = Some u"
      and "ObjectId_parse L noteId = Some oid"
      and "find (owned u oid) (db_notes d) = Some n"
  shows "(truthy title \<and> \<not> truthy content \<longrightarrow>
            (\<exists>d1. editNote L now (Some h) noteId title content d =
                     (Response 200
                        (JMessage (''Document with ID '' @ noteId @ '' properly updated.'')),
                      d1) \<and>
                   find (owned u oid) (db_notes d1) = Some (n\<lparr>note_title := val title\<rparr>) \<and>
                   filter (\<lambda>m. \<not> owned u oid m) (db_notes d1) =
                     filter (\<lambda>m. \<not> owned u oid m) (db_notes d))) \<and>
         (\<not> truthy title \<and> truthy content \<longrightarrow>
            (\<exists>d1. editNote L now (Some h) noteId title content d =
                     (Response 200
                        (JMessage (''Document with ID '' @ noteId @ '' properly updated.'')),
                      d1) \<and>
                   find (owned u oid) (db_notes d1) =
                     Some (n\<lparr>note_content := val content\<rparr>) \<and>
                   filter (\<lambda>m. \<not> owned u oid m) (db_notes d1) =
                     filter (\<lambda>m. \<not> owned u oid m) (db_notes d))) \<and>
         (\<not> truthy title \<and> \<not> truthy content \<longrightarrow>
            editNote L now (Some h) noteId title content d =
              (Response 400 (JError ''A title or content are needed to update the note''), d)) \<and>
         map note_id (db_notes (snd (editNote L now (Some h) noteId title content d)))
           = map note_id (db_notes d) \<and>
         map note_username (db_notes (snd (editNote L now (Some h) noteId title content d)))
           = map note_username (db_notes d)"
proof -
  let ?f = "\<lambda>m. m\<lparr>note_title := or_else title (note_title n),
                   note_content := or_else content (note_content n)\<rparr>"
  let ?d1 = "d\<lparr>db_notes := update_first (owned u oid) ?f (db_notes d)\<rparr>"
  have edit: "editNote L now (Some h) noteId title content d =
      (Response 200 (JMessage (''Document with ID '' @ noteId @ '' properly updated.'')), ?d1)"
    if "truthy title \<or> truthy content"
    using that assms by (simp add: editNote_def with_token_valid)
  from assms(3) have own: "owned u oid n" by (simp add: find_Some_holds)
  with assms(3) have found: "find (owned u oid) (db_notes ?d1) = Some (?f n)"
    by (simp add: update_first_find)
  have others: "filter (\<lambda>m. \<not> owned u oid m) (db_notes ?d1) =
      filter (\<lambda>m. \<not> owned u oid m) (db_notes d)"
    by (simp add: update_first_others)
  have t: "?f n = n\<lparr>note_title := val title\<rparr>" if "truthy title" "\<not> truthy content"
    using that by (simp add: or_else_def)
  have c: "?f n = n\<lparr>note_content := val content\<rparr>" if "\<not> truthy title" "truthy content"
    using that by (simp add: or_else_def)
  have none: "editNote L now (Some h) noteId title content d =
      (Response 400 (JError ''A title or content are needed to update the note''), d)"
    if "\<not> truthy title" "\<not> truthy content"
    using that assms by (simp add: editNote_def with_token_valid)
  from edit found others t c none editNote_keys [of L now "Some h" noteId title content d]
  show ?thesis by (intro conjI impI) auto
qed

theorem C6_update_frame_witness:
  "editNote demo 5 (Some ''Bearer 111111111.secret-key.alice'') ''65a1b2c3d4e5f60718293a4b''
       (Some ''T'') None note_db =
     (Response 200 (JMessage ''Document with ID 65a1b2c3d4e5f60718293a4b properly updated.''),
      bob_db\<lparr>db_notes := [alice_note\<lparr>note_title := ''T''\<rparr>]\<rparr>) \<and>
   editNote demo 5 (Some ''Bearer 111111111.secret-key.alice'') ''65a1b2c3d4e5f60718293a4b''
       (Some []) (Some ''C'') note_db =
     (Response 200 (JMessage ''Document with ID 65a1b2c3d4e5f60718293a4b properly updated.''),
      bob_db\<lparr>db_notes := [alice_note\<lparr>note_content := ''C''\<rparr>]\<rparr>) \<and>
   editNote demo 5 (Some ''Bearer 111111111.secret-key.alice'') ''65a1b2c3d4e5f60718293a4b''
       None (Some []) note_db =
     (Response 400 (JError ''A title or content are needed to update the note''), note_db)"
proof -
  have some: "find (owned ''alice'' ''65a1b2c3d4e5f60718293a4b'') (db_notes note_db)
      = Some alice_note"
    by (simp add: note_db_def alice_note_def owned_def)
  note inst = C6_update_frame [OF demo_tokens(1) demo_id(2) some]
  have t: "truthy (Some ''T'') \<and> \<not> truthy None" "\<not> truthy (Some []) \<and> truthy (Some ''C'')"
    "\<not> truthy None \<and> \<not> truthy (Some [])"
    by (simp_all add: truthy_def)
  from inst [of "Some ''T''" None] t(1)
  obtain d1 where e1: "editNote demo 5 (Some ''Bearer 111111111.secret-key.alice'')
      ''65a1b2c3d4e5f60718293a4b'' (Some ''T'') None note_db =
     (Response 200 (JMessage (''Document with ID '' @ ''65a1b2c3d4e5f60718293a4b'' @
        '' properly updated.'')), d1)"
    by blast
  from inst [of "Some []" "Some ''C''"] t(2)
  obtain d2 where e2: "editNote demo 5 (Some ''Bearer 111111111.secret-key.alice'')
      ''65a1b2c3d4e5f60718293a4b'' (Some []) (Some ''C'') note_db =
     (Response 200 (JMessage (''Document with ID '' @ ''65a1b2c3d4e5f60718293a4b'' @
        '' properly updated.'')), d2)"
    by blast
  from inst [of None "Some []"] t(3)
  have e3: "editNote demo 5 (Some ''Bearer 111111111.secret-key.alice'')
      ''65a1b2c3d4e5f60718293a4b'' None (Some []) note_db =
     (Response 400 (JError ''A title or content are needed to update the note''), note_db)"
    by blast
  from e1 demo_tokens(1) demo_id(2)
  have d1: "d1 = bob_db\<lparr>db_notes := [alice_note\<lparr>note_title := ''T''\<rparr>]\<rparr>"
    by (simp add: editNote_def with_token_valid note_db_def alice_note_def owned_def
          or_else_def truthy_def val_def)
  from e2 demo_tokens(1) demo_id(2)
  have d2: "d2 = bob_db\<lparr>db_notes := [alice_note\<lparr>note_content := ''C''\<rparr>]\<rparr>"
    by (simp add: editNote_def with_token_valid note_db_def alice_note_def owned_def
          or_else_def truthy_def val_def)
  from e1 e2 e3 d1 d2 show ?thesis by simp
qed




end
